theory Spec2Isabelle
  imports Main
begin

section \<open>The Lagoon OIDC provider: \<open>Authorize\<close> (providers/lagoon.go)\<close>

text \<open>
  \<open>Authorize\<close> decides whether a session may reach its destination by asking a GraphQL
  service for the environment of the route. Strings are Go strings: lists of bytes.
  Everything \<open>Authorize\<close> obtains from outside the file (the base64 and JSON codecs of the
  standard library, the validation done while a request is created, the answer of the
  HTTP client) is a parameter of the model, gathered in the record \<open>world\<close>; the theorems
  hold for every such world. What \<open>Authorize\<close> does to the outside (log lines, the HTTP
  exchange, reading and closing the response body) is returned as a trace of events, in
  the order of execution.
\<close>

subsection \<open>Constants\<close>

definition lagoonGraphqlEndpoint :: string where
  "lagoonGraphqlEndpoint = ''http://lagoon-api.172.18.0.240.nip.io/graphql''"

text \<open>
  The query is a raw string literal whose opening back quote ends line 22 and whose closing
  back quote is alone on line 29: the text starts with a line feed and ends with one.
\<close>

definition queryGetEnvironmentByRoute :: string where
  "queryGetEnvironmentByRoute =
     ''\<newline>query GetEnvironmentByRoute($route: String!) {\<newline>'' @
     ''  environmentByRoute(route: $route) {\<newline>'' @
     ''    id\<newline>'' @
     ''    name\<newline>'' @
     ''  }\<newline>'' @
     ''}\<newline>''"

subsection \<open>Data\<close>

text \<open>A library error is known by its message.\<close>

type_synonym cause = string

text \<open>
  One constructor for each \<open>fmt.Errorf\<close> of \<open>Authorize\<close>, in the order of the source and
  under the names of the error taxonomy; \<open>RequestCreationFailed\<close> (line 87) has no name
  there. \<open>errorText\<close> is the message the source formats.
\<close>

datatype error =
    MissingDestination
  | RequestEncodingFailed cause
  | RequestCreationFailed cause
  | TransportFailure cause
  | UnexpectedStatus int
  | ResponseDecodeFailed cause
  | RemoteGraphQLError string

fun decimalNat :: "nat \<Rightarrow> string" where
  "decimalNat n =
     (if n < 10 then [''0123456789'' ! n]
      else decimalNat (n div 10) @ [''0123456789'' ! (n mod 10)])"

definition decimalInt :: "int \<Rightarrow> string" where
  "decimalInt i = (if i < 0 then CHR ''-'' # decimalNat (nat (- i)) else decimalNat (nat i))"

fun errorText :: "error \<Rightarrow> string" where
  "errorText MissingDestination = ''missing redirect URL''"
| "errorText (RequestEncodingFailed c) = ''failed to marshal GraphQL request: '' @ c"
| "errorText (RequestCreationFailed c) = ''failed to create GraphQL request: '' @ c"
| "errorText (TransportFailure c) = ''failed to call Lagoon GraphQL API: '' @ c"
| "errorText (UnexpectedStatus code) = ''unexpected GraphQL status: '' @ decimalInt code"
| "errorText (ResponseDecodeFailed c) = ''failed to decode GraphQL response: '' @ c"
| "errorText (RemoteGraphQLError m) = ''GraphQL error: '' @ m"

text \<open>The two fields of \<open>sessions.SessionState\<close> that \<open>Authorize\<close> reads.\<close>

record SessionState =
  AccessToken :: string
  AppRedirect :: string

text \<open>\<open>environmentByRouteResponse\<close> (lines 30 to 40), one record for each nested struct.\<close>

record EnvironmentByRouteT =
  ID :: int
  Name :: string

record DataT =
  EnvironmentByRoute :: EnvironmentByRouteT

record ErrorT =
  Message :: string

record environmentByRouteResponse =
  Data :: DataT
  Errors :: "ErrorT list"

text \<open>
  The value handed to \<open>json.Marshal\<close> is a \<open>map[string]interface{}\<close> whose values are a
  string and a \<open>map[string]string\<close>.
\<close>

datatype goValue = GoString string | GoStringMap "string \<rightharpoonup> string"

text \<open>
  An \<open>http.Request\<close>: the context it was created with, method, URL, header
  (\<open>map[string][]string\<close>) and body bytes.
\<close>

record 'ctx Request =
  Ctx :: 'ctx
  Method :: string
  URL :: string
  Header :: "string \<rightharpoonup> string list"
  RequestBody :: string

text \<open>
  A response body is a stream; what matters of it is what \<open>io.ReadAll\<close> gets out of it:
  the bytes read before the end or the first failure, and that failure if there was one.
\<close>

record BodyStream =
  bytesRead :: string
  readError :: "cause option"

record Response =
  StatusCode :: int
  Body :: BodyStream

text \<open>The effects of a call, as events.\<close>

datatype 'ctx event =
    is_Log: Log string
  | is_HttpDo: HttpDo "'ctx Request"
  | BodyReadAll
  | BodyClose

text \<open>
  The outside of the file during one call:
  \<^item> \<open>DecodeString\<close> is \<open>base64.RawURLEncoding.DecodeString\<close>, which returns bytes and an error;
  \<^item> \<open>Marshal\<close> is \<open>json.Marshal\<close> on the request map;
  \<^item> \<open>requestInvalid\<close> is the check of context, method and URL made by
    \<open>http.NewRequestWithContext\<close>;
  \<^item> \<open>Do\<close> is \<open>client.Do\<close>: a transport failure or the response of the remote service;
  \<^item> \<open>Unmarshal\<close> is \<open>json.Unmarshal\<close> into an \<open>environmentByRouteResponse\<close>.
\<close>

record 'ctx world =
  DecodeString :: "string \<Rightarrow> string \<times> cause option"
  Marshal :: "(string \<rightharpoonup> goValue) \<Rightarrow> cause + string"
  requestInvalid :: "'ctx \<Rightarrow> string \<Rightarrow> string \<Rightarrow> cause option"
  Do :: "'ctx Request \<Rightarrow> cause + Response"
  Unmarshal :: "string \<Rightarrow> cause + environmentByRouteResponse"

subsection \<open>Library functions with a fixed meaning\<close>

text \<open>
  \<open>strings.Split(s, sep)\<close> for a separator of one byte: the pieces of \<open>s\<close> between the
  occurrences of the separator, one more piece than there are occurrences. \<open>splitFrom\<close>
  scans the string with the piece read so far.
\<close>

fun splitFrom :: "string \<Rightarrow> char \<Rightarrow> string \<Rightarrow> string list" where
  "splitFrom [] sep piece = [piece]"
| "splitFrom (c # cs) sep piece =
     (if c = sep then piece # splitFrom cs sep [] else splitFrom cs sep (piece @ [c]))"

definition Split :: "string \<Rightarrow> char \<Rightarrow> string list" where
  "Split s sep = splitFrom s sep []"

text \<open>
  \<open>strings.TrimRight(s, cutset)\<close> for a cutset of ASCII bytes: the longest suffix made of
  bytes of the cutset is removed.
\<close>

definition TrimRight :: "string \<Rightarrow> string \<Rightarrow> string" where
  "TrimRight s cutset = rev (dropWhile (\<lambda>c. c \<in> set cutset) (rev s))"

text \<open>Go indexing \<open>xs[i]\<close> panics out of range: \<open>None\<close> is the panic.\<close>

definition index :: "'a list \<Rightarrow> nat \<Rightarrow> 'a option" where
  "index xs i = (if i < length xs then Some (xs ! i) else None)"

text \<open>\<open>io.ReadAll\<close> returns the bytes and the error.\<close>

definition ReadAll :: "BodyStream \<Rightarrow> string \<times> cause option" where
  "ReadAll b = (bytesRead b, readError b)"

text \<open>
  \<open>http.NewRequestWithContext\<close>: the error of the check, or a request with the given
  context, method, URL and body and an empty header.
\<close>

definition NewRequestWithContext ::
  "'ctx world \<Rightarrow> 'ctx \<Rightarrow> string \<Rightarrow> string \<Rightarrow> string \<Rightarrow> cause + 'ctx Request" where
  "NewRequestWithContext w ctx method url body =
     (case requestInvalid w ctx method url of
        Some e \<Rightarrow> Inl e
      | None \<Rightarrow> Inr \<lparr>Ctx = ctx, Method = method, URL = url, Header = Map.empty,
                     RequestBody = body\<rparr>)"

text \<open>
  \<open>req.Header.Set(key, value)\<close> replaces the values of the key by the one value. The two
  keys \<open>Authorize\<close> sets are already in canonical form.
\<close>

definition HeaderSet :: "'ctx Request \<Rightarrow> string \<Rightarrow> string \<Rightarrow> 'ctx Request" where
  "HeaderSet req key v = req\<lparr>Header := (Header req)(key \<mapsto> [v])\<rparr>"

subsection \<open>\<open>Authorize\<close>\<close>

text \<open>
  Lines 63 to 69: the inspection of the access token. The result is the log lines it
  writes, or \<open>None\<close> if an index were out of range.
\<close>

definition inspectToken :: "'ctx world \<Rightarrow> string \<Rightarrow> 'ctx event list option" where
  "inspectToken w token =
     (let parts = Split token CHR ''.'' in
      if length parts = 3 then
        (case index parts 0 of
           None \<Rightarrow> None
         | Some p0 \<Rightarrow>
             (case index parts 1 of
                None \<Rightarrow> None
              | Some p1 \<Rightarrow>
                  (let header = fst (DecodeString w p0);
                       payload = fst (DecodeString w p1)
                   in Some [Log (''Access Token Header: '' @ header @ ''\<newline>''),
                            Log (''Access Token Payload: '' @ payload @ ''\<newline>'')])))
      else Some [])"

text \<open>Lines 76 to 79: the request map.\<close>

definition requestMap :: "string \<Rightarrow> (string \<rightharpoonup> goValue)" where
  "requestMap route =
     [''query'' \<mapsto> GoString queryGetEnvironmentByRoute,
      ''variables'' \<mapsto> GoStringMap [''route'' \<mapsto> route]]"

text \<open>
  Lines 99 to 121: what \<open>Authorize\<close> does with a response. The status check returns before
  the \<open>defer resp.Body.Close()\<close> of line 103 is reached; on the paths after it, the close
  runs as the function returns, so it is the last event.
\<close>

definition handleResponse ::
  "'ctx world \<Rightarrow> Response \<Rightarrow> ('ctx event list \<times> bool \<times> error option) option" where
  "handleResponse w resp =
     (if StatusCode resp \<noteq> 200 then
        Some ([], False, Some (UnexpectedStatus (StatusCode resp)))
      else
        (let bodyBytes = fst (ReadAll (Body resp));
             t = [BodyReadAll,
                  Log (''Lagoon Authorization returned:\<newline>'' @ bodyBytes @ ''\<newline>'')]
         in case Unmarshal w bodyBytes of
              Inl e \<Rightarrow> Some (t @ [BodyClose], False, Some (ResponseDecodeFailed e))
            | Inr gqlResp \<Rightarrow>
                if length (Errors gqlResp) > 0 then
                  (case index (Errors gqlResp) 0 of
                     None \<Rightarrow> None
                   | Some e0 \<Rightarrow>
                       Some (t @ [BodyClose], False, Some (RemoteGraphQLError (Message e0))))
                else if Name (EnvironmentByRoute (Data gqlResp)) \<noteq> [] then
                  Some (t @ [BodyClose], True, None)
                else Some (t @ [BodyClose], False, None)))"

text \<open>
  Lines 71 to 91: the route is normalised, the request map encoded, the request created
  and its two headers set. Each early return of these lines is an \<open>Inl\<close>.
\<close>

definition prepareRequest :: "'ctx world \<Rightarrow> 'ctx \<Rightarrow> SessionState \<Rightarrow> error + 'ctx Request" where
  "prepareRequest w ctx s =
     (let route = TrimRight (AppRedirect s) ''/'' in
      if route = [] then Inl MissingDestination
      else
        (case Marshal w (requestMap route) of
           Inl e \<Rightarrow> Inl (RequestEncodingFailed e)
         | Inr bodyJSON \<Rightarrow>
             (case NewRequestWithContext w ctx ''POST'' lagoonGraphqlEndpoint bodyJSON of
                Inl e \<Rightarrow> Inl (RequestCreationFailed e)
              | Inr req \<Rightarrow>
                  Inr (HeaderSet
                         (HeaderSet req ''Authorization'' (''Bearer '' @ AccessToken s))
                         ''Content-Type'' ''application/json''))))"

text \<open>
  \<open>Authorize\<close> (lines 60 to 122). The result is \<open>None\<close> for a panic, and otherwise the
  trace of events with the pair the Go function returns (\<open>None\<close> for a nil error). The
  session is a value: a nil session pointer is outside the model.
\<close>

definition Authorize ::
  "'ctx world \<Rightarrow> 'ctx \<Rightarrow> SessionState \<Rightarrow> ('ctx event list \<times> bool \<times> error option) option" where
  "Authorize w ctx s =
     (let t0 = [Log (''Checking Lagoon provider for authorization on '' @ AppRedirect s
                     @ ''\<newline>'')]
      in case inspectToken w (AccessToken s) of
           None \<Rightarrow> None
         | Some t1 \<Rightarrow>
             (case prepareRequest w ctx s of
                Inl e \<Rightarrow> Some (t0 @ t1, False, Some e)
              | Inr req \<Rightarrow>
                  (case Do w req of
                     Inl e \<Rightarrow> Some (t0 @ t1 @ [HttpDo req], False, Some (TransportFailure e))
                   | Inr resp \<Rightarrow>
                       (case handleResponse w resp of
                          None \<Rightarrow> None
                        | Some (t2, r) \<Rightarrow> Some (t0 @ t1 @ [HttpDo req] @ t2, r)))))"

subsection \<open>The query text of the interface description\<close>

text \<open>
  The six lines of the query as the interface description prints them, joined by line
  feeds: the text starts at \<open>query\<close> and ends at the last closing brace.
\<close>

definition specQueryText :: string where
  "specQueryText =
     ''query GetEnvironmentByRoute($route: String!) {\<newline>'' @
     ''  environmentByRoute(route: $route) {\<newline>'' @
     ''    id\<newline>'' @
     ''    name\<newline>'' @
     ''  }\<newline>'' @
     ''}''"

subsection \<open>A sample world\<close>

text \<open>
  Stand-ins for the library calls, used to run the model on concrete inputs. Each is a
  table of what the library returns on the inputs of the examples below.
\<close>

definition sampleDecodeString :: "string \<Rightarrow> string \<times> cause option" where
  \<open>sampleDecodeString seg =
     (if seg = ''eyJhbGciOiJub25lIn0'' then (''{"alg":"none"}'', None)
      else if seg = ''eyJzdWIiOiIxIn0'' then (''{"sub":"1"}'', None)
      else ([], Some ''illegal base64 data at input byte 0''))\<close>

fun jsonQuote :: "string \<Rightarrow> string" where
  \<open>jsonQuote [] = []\<close>
| \<open>jsonQuote (c # cs) =
     (if c = CHR ''\<newline>'' then CHR 0x5C # CHR ''n'' # jsonQuote cs
      else if c = CHR ''"'' then CHR 0x5C # CHR ''"'' # jsonQuote cs
      else if c = CHR 0x5C then CHR 0x5C # CHR 0x5C # jsonQuote cs
      else c # jsonQuote cs)\<close>

definition sampleMarshal :: "(string \<rightharpoonup> goValue) \<Rightarrow> cause + string" where
  \<open>sampleMarshal m =
     (case (m ''query'', m ''variables'') of
        (Some (GoString q), Some (GoStringMap v)) \<Rightarrow>
          (case v ''route'' of
             Some r \<Rightarrow>
               Inr (''{"query":"'' @ jsonQuote q @ ''","variables":{"route":"'' @ jsonQuote r
                    @ ''"}}'')
           | None \<Rightarrow> Inl ''unsupported value'')
      | _ \<Rightarrow> Inl ''unsupported value'')\<close>

definition sampleUnmarshal :: "string \<Rightarrow> cause + environmentByRouteResponse" where
  \<open>sampleUnmarshal b =
     (if b = ''{"data":{"environmentByRoute":{"id":7,"name":"prod"}}}'' then
        Inr \<lparr>Data = \<lparr>EnvironmentByRoute = \<lparr>ID = 7, Name = ''prod''\<rparr>\<rparr>, Errors = []\<rparr>
      else if b = ''{"data":{"environmentByRoute":null}}'' then
        Inr \<lparr>Data = \<lparr>EnvironmentByRoute = \<lparr>ID = 0, Name = []\<rparr>\<rparr>, Errors = []\<rparr>
      else if b = ''{"errors":[{"message":"Unauthorized"}],"data":{"environmentByRoute":{"id":7,"name":"prod"}}}'' then
        Inr \<lparr>Data = \<lparr>EnvironmentByRoute = \<lparr>ID = 7, Name = ''prod''\<rparr>\<rparr>,
             Errors = [\<lparr>Message = ''Unauthorized''\<rparr>]\<rparr>
      else Inl ''unexpected end of JSON input'')\<close>

text \<open>The sample world answers every request with the given outcome of \<open>client.Do\<close>.\<close>

definition sampleWorld :: "cause + Response \<Rightarrow> unit world" where
  "sampleWorld answer =
     \<lparr>DecodeString = sampleDecodeString, Marshal = sampleMarshal,
      requestInvalid = (\<lambda>ctx method url. None), Do = (\<lambda>req. answer),
      Unmarshal = sampleUnmarshal\<rparr>"

definition sampleSession :: SessionState where
  "sampleSession =
     \<lparr>AccessToken = ''eyJhbGciOiJub25lIn0.eyJzdWIiOiIxIn0.c2ln'',
      AppRedirect = ''https://example.com/app///''\<rparr>"

definition sampleBody :: "string \<Rightarrow> BodyStream" where
  "sampleBody b = \<lparr>bytesRead = b, readError = None\<rparr>"

section \<open>Supporting lemmas\<close>

subsection \<open>Strings\<close>

lemma length_splitFrom: "length (splitFrom s c piece) = Suc (count_list s c)"
  by (induction s arbitrary: piece) auto

lemma length_Split: "length (Split s c) = Suc (count_list s c)"
  by (simp add: Split_def length_splitFrom)

lemma TrimRight_Nil_iff: "TrimRight s cutset = [] \<longleftrightarrow> set s \<subseteq> set cutset"
  by (auto simp add: TrimRight_def)

lemma TrimRight_suffix:
  "\<exists>n. s = TrimRight s [c] @ replicate n c"
proof -
  have "rev s = takeWhile (\<lambda>x. x = c) (rev s) @ dropWhile (\<lambda>x. x = c) (rev s)"
    by simp
  then have "s = rev (dropWhile (\<lambda>x. x = c) (rev s)) @ rev (takeWhile (\<lambda>x. x = c) (rev s))"
    by (metis rev_append rev_rev_ident)
  moreover have "rev (takeWhile (\<lambda>x. x = c) (rev s)) = replicate (length (takeWhile (\<lambda>x. x = c) (rev s))) c"
    by (metis (mono_tags, lifting) length_rev replicate_eqI set_rev set_takeWhileD)
  ultimately show ?thesis by (auto simp add: TrimRight_def)
qed

lemma TrimRight_last:
  "TrimRight s [c] \<noteq> [] \<Longrightarrow> last (TrimRight s [c]) \<noteq> c"
  using hd_dropWhile[of "\<lambda>x. x = c" "rev s"]
  by (simp add: TrimRight_def last_rev)

lemma queryGetEnvironmentByRoute_spec:
  "queryGetEnvironmentByRoute = CHR ''\<newline>'' # specQueryText @ ''\<newline>''"
  by (simp add: queryGetEnvironmentByRoute_def specQueryText_def)

lemma errorText_status_500: "errorText (UnexpectedStatus 500) = ''unexpected GraphQL status: 500''"
  by (simp add: decimalInt_def)

subsection \<open>The three blocks of \<open>Authorize\<close>\<close>

text \<open>
  The token inspection never panics, and writes two log lines or nothing.
\<close>

lemma inspectToken_eq:
  "inspectToken w tok =
     Some (if length (Split tok CHR ''.'') = 3 then
             [Log (''Access Token Header: '' @ fst (DecodeString w (Split tok CHR ''.'' ! 0))
                   @ ''\<newline>''),
              Log (''Access Token Payload: '' @ fst (DecodeString w (Split tok CHR ''.'' ! 1))
                   @ ''\<newline>'')]
           else [])"
  by (simp add: inspectToken_def index_def Let_def)

lemma inspectToken_logs: "inspectToken w tok = Some t1 \<Longrightarrow> list_all is_Log t1"
  by (auto simp add: inspectToken_eq split: if_splits)

text \<open>
  The request that leaves when the route is not empty and the library calls succeed.
\<close>

lemma prepareRequest_ok:
  assumes "TrimRight (AppRedirect s) ''/'' \<noteq> []"
    and "Marshal w (requestMap (TrimRight (AppRedirect s) ''/'')) = Inr bodyJSON"
    and "requestInvalid w ctx ''POST'' lagoonGraphqlEndpoint = None"
  shows "prepareRequest w ctx s =
    Inr \<lparr>Ctx = ctx, Method = ''POST'', URL = lagoonGraphqlEndpoint,
         Header = [''Authorization'' \<mapsto> [''Bearer '' @ AccessToken s],
                   ''Content-Type'' \<mapsto> [''application/json'']],
         RequestBody = bodyJSON\<rparr>"
  using assms by (simp add: prepareRequest_def NewRequestWithContext_def HeaderSet_def)

text \<open>
  The response handling, by status code.
\<close>

lemma handleResponse_200:
  "StatusCode resp = 200 \<Longrightarrow>
   handleResponse w resp =
     Some ([BodyReadAll,
            Log (''Lagoon Authorization returned:\<newline>'' @ bytesRead (Body resp) @ ''\<newline>''),
            BodyClose],
           case Unmarshal w (bytesRead (Body resp)) of
             Inl c \<Rightarrow> (False, Some (ResponseDecodeFailed c))
           | Inr g \<Rightarrow>
               (case Errors g of
                  [] \<Rightarrow> (Name (EnvironmentByRoute (Data g)) \<noteq> [], None)
                | e # es \<Rightarrow> (False, Some (RemoteGraphQLError (Message e)))))"
  by (simp add: handleResponse_def index_def ReadAll_def Let_def split: sum.split list.split)

lemma handleResponse_not_200:
  "StatusCode resp \<noteq> 200 \<Longrightarrow>
   handleResponse w resp = Some ([], False, Some (UnexpectedStatus (StatusCode resp)))"
  by (simp add: handleResponse_def)

lemma handleResponse_cases:
  "\<exists>t2 r. handleResponse w resp = Some (t2, r) \<and> filter is_HttpDo t2 = []
     \<and> (snd r \<noteq> None \<longrightarrow> \<not> fst r)"
  by (cases "StatusCode resp = 200")
     (auto simp add: handleResponse_200 handleResponse_not_200 split: sum.split list.split)

text \<open>
  Neither the request nor the response handling looks at the base64 decoder.
\<close>

lemma prepareRequest_DecodeString:
  "prepareRequest (w\<lparr>DecodeString := d\<rparr>) ctx s = prepareRequest w ctx s"
  by (simp add: prepareRequest_def NewRequestWithContext_def Let_def cong: sum.case_cong)

lemma handleResponse_DecodeString:
  "handleResponse (w\<lparr>DecodeString := d\<rparr>) resp = handleResponse w resp"
  by (simp add: handleResponse_def)

subsection \<open>The paths of \<open>Authorize\<close>\<close>

lemma Authorize_no_request:
  assumes "prepareRequest w ctx s = Inl e"
  shows "\<exists>t1. inspectToken w (AccessToken s) = Some t1 \<and>
    Authorize w ctx s =
     Some (Log (''Checking Lagoon provider for authorization on '' @ AppRedirect s @ ''\<newline>'')
             # t1, False, Some e)"
  using assms by (simp add: Authorize_def inspectToken_eq)

lemma Authorize_transport:
  assumes "prepareRequest w ctx s = Inr req" and "Do w req = Inl e"
  shows "\<exists>t1. inspectToken w (AccessToken s) = Some t1 \<and>
    Authorize w ctx s =
     Some (Log (''Checking Lagoon provider for authorization on '' @ AppRedirect s @ ''\<newline>'')
             # t1 @ [HttpDo req], False, Some (TransportFailure e))"
  using assms by (simp add: Authorize_def inspectToken_eq)

lemma Authorize_response:
  assumes "prepareRequest w ctx s = Inr req" and "Do w req = Inr resp"
    and "handleResponse w resp = Some (t2, r)"
  shows "\<exists>t1. inspectToken w (AccessToken s) = Some t1 \<and>
    Authorize w ctx s =
     Some (Log (''Checking Lagoon provider for authorization on '' @ AppRedirect s @ ''\<newline>'')
             # t1 @ HttpDo req # t2, r)"
  using assms by (simp add: Authorize_def inspectToken_eq)

lemma Authorize_requests:
  assumes "prepareRequest w ctx s = Inr req"
  shows "\<exists>tr r. Authorize w ctx s = Some (tr, r) \<and> filter is_HttpDo tr = [HttpDo req]"
proof -
  obtain t1 where i: "inspectToken w (AccessToken s) = Some t1"
    by (simp add: inspectToken_eq)
  then have l: "filter is_HttpDo t1 = []"
    by (auto simp add: inspectToken_eq split: if_splits)
  show ?thesis
  proof (cases "Do w req")
    case (Inl e)
    from Authorize_transport[OF assms Inl] i l show ?thesis by auto
  next
    case (Inr resp)
    obtain t2 r where h: "handleResponse w resp = Some (t2, r)"
      and f: "filter is_HttpDo t2 = []"
      using handleResponse_cases[of w resp] by blast
    from Authorize_response[OF assms Inr h] i l f show ?thesis by auto
  qed
qed

lemma Authorize_200:
  assumes "prepareRequest w ctx s = Inr req"
    and "Do w req = Inr resp"
    and "StatusCode resp = 200"
  shows "\<exists>tr. Authorize w ctx s =
     Some (tr @ [BodyClose],
           case Unmarshal w (bytesRead (Body resp)) of
             Inl c \<Rightarrow> (False, Some (ResponseDecodeFailed c))
           | Inr g \<Rightarrow>
               (case Errors g of
                  [] \<Rightarrow> (Name (EnvironmentByRoute (Data g)) \<noteq> [], None)
                | e # es \<Rightarrow> (False, Some (RemoteGraphQLError (Message e)))))"
proof -
  from Authorize_response[OF assms(1,2) handleResponse_200[OF assms(3)]]
  obtain t1 where "Authorize w ctx s =
     Some ((Log (''Checking Lagoon provider for authorization on '' @ AppRedirect s
                 @ ''\<newline>'') # t1 @
            [HttpDo req, BodyReadAll,
             Log (''Lagoon Authorization returned:\<newline>'' @ bytesRead (Body resp)
                  @ ''\<newline>'')]) @ [BodyClose],
           case Unmarshal w (bytesRead (Body resp)) of
             Inl c \<Rightarrow> (False, Some (ResponseDecodeFailed c))
           | Inr g \<Rightarrow>
               (case Errors g of
                  [] \<Rightarrow> (Name (EnvironmentByRoute (Data g)) \<noteq> [], None)
                | e # es \<Rightarrow> (False, Some (RemoteGraphQLError (Message e)))))"
    by auto
  then show ?thesis by blast
qed

lemma Authorize_not_200_leaves_body_open:
  assumes "prepareRequest w ctx s = Inr req"
    and "Do w req = Inr resp"
    and "StatusCode resp \<noteq> 200"
  shows "\<exists>tr r. Authorize w ctx s = Some (tr, r) \<and> BodyClose \<notin> set tr"
proof -
  from Authorize_response[OF assms(1,2) handleResponse_not_200[OF assms(3)]]
  obtain t1 where i: "inspectToken w (AccessToken s) = Some t1"
    and a: "Authorize w ctx s =
     Some (Log (''Checking Lagoon provider for authorization on '' @ AppRedirect s
                 @ ''\<newline>'') # t1 @ [HttpDo req],
           False, Some (UnexpectedStatus (StatusCode resp)))"
    by auto
  from inspectToken_logs[OF i] have "BodyClose \<notin> set t1"
    by (auto simp add: list_all_iff)
  with a show ?thesis by auto
qed

subsection \<open>The sample world\<close>

lemma sample_prepareRequest: "\<exists>req. prepareRequest (sampleWorld a) () sampleSession = Inr req"
  by (simp add: prepareRequest_def sampleWorld_def sampleSession_def TrimRight_def
      requestMap_def sampleMarshal_def NewRequestWithContext_def Let_def)

section \<open>The claims\<close>

text \<open>
  C1. When the call receives an HTTP 200 response whose body decodes into a response with
  an empty errors list, the result is allowed exactly when the name of
  \<open>data.environmentByRoute\<close> is not empty, with a nil error: a non-empty name gives
  (true, nil), an empty name (the value an absent field decodes to) gives (false, nil).
  No other field of the decoded response, such as the id, enters the result.
\<close>

theorem Authorize_decides_by_name:
  assumes "prepareRequest w ctx s = Inr req"
    and "Do w req = Inr resp"
    and "StatusCode resp = 200"
    and "Unmarshal w (fst (ReadAll (Body resp))) = Inr g"
    and "Errors g = []"
  shows "\<exists>tr. Authorize w ctx s = Some (tr, Name (EnvironmentByRoute (Data g)) \<noteq> [], None)"
proof -
  from assms(3-5) have "\<exists>t2. handleResponse w resp
      = Some (t2, Name (EnvironmentByRoute (Data g)) \<noteq> [], None)"
    by (simp add: handleResponse_200 ReadAll_def)
  then obtain t2 where "handleResponse w resp
      = Some (t2, Name (EnvironmentByRoute (Data g)) \<noteq> [], None)" ..
  from Authorize_response[OF assms(1,2) this] show ?thesis by blast
qed

theorem Authorize_decides_by_name_witness:
  \<open>(\<exists>tr. Authorize
      (sampleWorld (Inr \<lparr>StatusCode = 200,
         Body = sampleBody ''{"data":{"environmentByRoute":{"id":7,"name":"prod"}}}''\<rparr>))
      () sampleSession = Some (tr, True, None)) \<and>
   (\<exists>tr. Authorize
      (sampleWorld (Inr \<lparr>StatusCode = 200,
         Body = sampleBody ''{"data":{"environmentByRoute":null}}''\<rparr>))
      () sampleSession = Some (tr, False, None))\<close>
proof -
  let ?r1 = \<open>\<lparr>StatusCode = 200,
         Body = sampleBody ''{"data":{"environmentByRoute":{"id":7,"name":"prod"}}}''\<rparr>\<close>
  let ?r2 = \<open>\<lparr>StatusCode = 200,
         Body = sampleBody ''{"data":{"environmentByRoute":null}}''\<rparr>\<close>
  let ?g1 = "\<lparr>Data = \<lparr>EnvironmentByRoute = \<lparr>ID = 7, Name = ''prod''\<rparr>\<rparr>, Errors = []\<rparr>"
  let ?g2 = "\<lparr>Data = \<lparr>EnvironmentByRoute = \<lparr>ID = 0, Name = []\<rparr>\<rparr>, Errors = []\<rparr>"
  obtain q1 where p1: "prepareRequest (sampleWorld (Inr ?r1)) () sampleSession = Inr q1"
    using sample_prepareRequest by blast
  obtain q2 where p2: "prepareRequest (sampleWorld (Inr ?r2)) () sampleSession = Inr q2"
    using sample_prepareRequest by blast
  have u1: "Unmarshal (sampleWorld (Inr ?r1)) (fst (ReadAll (Body ?r1))) = Inr ?g1"
    by (simp add: sampleWorld_def sampleUnmarshal_def sampleBody_def ReadAll_def)
  have u2: "Unmarshal (sampleWorld (Inr ?r2)) (fst (ReadAll (Body ?r2))) = Inr ?g2"
    by (simp add: sampleWorld_def sampleUnmarshal_def sampleBody_def ReadAll_def)
  have "\<exists>tr. Authorize (sampleWorld (Inr ?r1)) () sampleSession = Some (tr, True, None)"
    using Authorize_decides_by_name[OF p1 _ _ u1] by (simp add: sampleWorld_def)
  moreover
  have "\<exists>tr. Authorize (sampleWorld (Inr ?r2)) () sampleSession = Some (tr, False, None)"
    using Authorize_decides_by_name[OF p2 _ _ u2] by (simp add: sampleWorld_def)
  ultimately show ?thesis by blast
qed

text \<open>
  C2. For a session whose \<open>AppRedirect\<close> is empty or made of \<open>/\<close> characters only,
  \<open>Authorize\<close> returns (false, MissingDestination): the request is not built, and the
  trace of the call holds log lines only, so no HTTP request is issued.
\<close>

theorem Authorize_missing_destination:
  assumes "set (AppRedirect s) \<subseteq> {CHR ''/''}"
  shows "prepareRequest w ctx s = Inl MissingDestination \<and>
    (\<exists>tr. Authorize w ctx s = Some (tr, False, Some MissingDestination) \<and> list_all is_Log tr)"
proof -
  from assms have "TrimRight (AppRedirect s) ''/'' = []"
    by (simp add: TrimRight_Nil_iff)
  then have p: "prepareRequest w ctx s = Inl MissingDestination"
    by (simp add: prepareRequest_def)
  from Authorize_no_request[OF p] inspectToken_logs[of w "AccessToken s"]
  show ?thesis using p by auto
qed

theorem Authorize_missing_destination_witness:
  "set ''///'' \<subseteq> {CHR ''/''} \<and>
   prepareRequest (sampleWorld (Inl ''unreachable'')) ()
     \<lparr>AccessToken = ''t'', AppRedirect = ''///''\<rparr> = Inl MissingDestination \<and>
   Authorize (sampleWorld (Inl ''unreachable'')) () \<lparr>AccessToken = ''t'', AppRedirect = ''///''\<rparr>
     = Some ([Log (''Checking Lagoon provider for authorization on ///\<newline>'')],
             False, Some MissingDestination)"
proof -
  have h: "set (AppRedirect \<lparr>AccessToken = ''t'', AppRedirect = ''///''\<rparr>) \<subseteq> {CHR ''/''}"
    by simp
  from Authorize_missing_destination[OF h, of "sampleWorld (Inl ''unreachable'')" "()"]
  show ?thesis
    by (simp add: Authorize_def inspectToken_def Split_def Let_def)
qed

text \<open>
  C3. When the decoded response has a non-empty errors list, \<open>Authorize\<close> returns
  (false, RemoteGraphQLError) with the message of the first element of the list, whatever
  the data of the response: the errors are checked before the name.
\<close>

theorem Authorize_remote_errors_first:
  assumes "prepareRequest w ctx s = Inr req"
    and "Do w req = Inr resp"
    and "StatusCode resp = 200"
    and "Unmarshal w (fst (ReadAll (Body resp))) = Inr g"
    and "Errors g = e # es"
  shows "\<exists>tr. Authorize w ctx s = Some (tr, False, Some (RemoteGraphQLError (Message e)))"
proof -
  from assms(3-5) have "\<exists>t2. handleResponse w resp
      = Some (t2, False, Some (RemoteGraphQLError (Message e)))"
    by (simp add: handleResponse_200 ReadAll_def)
  then obtain t2 where "handleResponse w resp
      = Some (t2, False, Some (RemoteGraphQLError (Message e)))" ..
  from Authorize_response[OF assms(1,2) this] show ?thesis by blast
qed

theorem Authorize_remote_errors_first_witness:
  \<open>\<exists>tr. Authorize
      (sampleWorld (Inr \<lparr>StatusCode = 200,
         Body = sampleBody ''{"errors":[{"message":"Unauthorized"}],"data":{"environmentByRoute":{"id":7,"name":"prod"}}}''\<rparr>))
      () sampleSession = Some (tr, False, Some (RemoteGraphQLError ''Unauthorized''))\<close>
proof -
  let ?r = \<open>\<lparr>StatusCode = 200,
         Body = sampleBody ''{"errors":[{"message":"Unauthorized"}],"data":{"environmentByRoute":{"id":7,"name":"prod"}}}''\<rparr>\<close>
  let ?g = "\<lparr>Data = \<lparr>EnvironmentByRoute = \<lparr>ID = 7, Name = ''prod''\<rparr>\<rparr>,
             Errors = [\<lparr>Message = ''Unauthorized''\<rparr>]\<rparr>"
  obtain q where p: "prepareRequest (sampleWorld (Inr ?r)) () sampleSession = Inr q"
    using sample_prepareRequest by blast
  have u: "Unmarshal (sampleWorld (Inr ?r)) (fst (ReadAll (Body ?r))) = Inr ?g"
    by (simp add: sampleWorld_def sampleUnmarshal_def sampleBody_def ReadAll_def)
  show ?thesis
    using Authorize_remote_errors_first[OF p _ _ u] by (simp add: sampleWorld_def)
qed

text \<open>
  C4. For a response whose status code is not 200, \<open>Authorize\<close> returns
  (false, UnexpectedStatus) with that status code. The trace ends with the HTTP call: the
  body is not read, and neither the body nor the decoder enters the result.
\<close>

theorem Authorize_unexpected_status:
  assumes "prepareRequest w ctx s = Inr req"
    and "Do w req = Inr resp"
    and "StatusCode resp \<noteq> 200"
  shows "\<exists>t1. inspectToken w (AccessToken s) = Some t1 \<and>
    Authorize w ctx s =
      Some (Log (''Checking Lagoon provider for authorization on '' @ AppRedirect s
                 @ ''\<newline>'') # t1 @ [HttpDo req],
            False, Some (UnexpectedStatus (StatusCode resp)))"
  using Authorize_response[OF assms(1,2) handleResponse_not_200[OF assms(3)]] by simp

theorem Authorize_unexpected_status_witness:
  \<open>\<exists>req. prepareRequest
        (sampleWorld (Inr \<lparr>StatusCode = 500, Body = sampleBody ''Internal Server Error''\<rparr>))
        () sampleSession = Inr req \<and>
    Authorize
      (sampleWorld (Inr \<lparr>StatusCode = 500, Body = sampleBody ''Internal Server Error''\<rparr>))
      () sampleSession =
    Some ([Log ''Checking Lagoon provider for authorization on https://example.com/app///\<newline>'',
           Log ''Access Token Header: {"alg":"none"}\<newline>'',
           Log ''Access Token Payload: {"sub":"1"}\<newline>'',
           HttpDo req], False, Some (UnexpectedStatus 500))\<close>
proof -
  let ?r = "\<lparr>StatusCode = 500, Body = sampleBody ''Internal Server Error''\<rparr>"
  obtain q where p: "prepareRequest (sampleWorld (Inr ?r)) () sampleSession = Inr q"
    using sample_prepareRequest by blast
  have d: "Do (sampleWorld (Inr ?r)) q = Inr ?r"
    by (simp add: sampleWorld_def)
  have i: \<open>inspectToken (sampleWorld (Inr ?r)) (AccessToken sampleSession) =
    Some [Log ''Access Token Header: {"alg":"none"}\<newline>'',
          Log ''Access Token Payload: {"sub":"1"}\<newline>'']\<close>
    by (simp add: inspectToken_def index_def Split_def sampleWorld_def sampleSession_def
        sampleDecodeString_def)
  from Authorize_unexpected_status[OF p d] i p show ?thesis
    by (simp add: sampleSession_def)
qed

text \<open>
  C5. Every call of \<open>Authorize\<close> returns, and returns either an error or a decision,
  never both: if the error is not nil the boolean is false, and if the boolean is true the
  error is nil.
\<close>

theorem Authorize_error_xor_decision:
  "\<exists>tr allowed err. Authorize w ctx s = Some (tr, allowed, err) \<and>
     (err \<noteq> None \<longrightarrow> allowed = False) \<and> (allowed \<longrightarrow> err = None)"
proof (cases "prepareRequest w ctx s")
  case (Inl e)
  from Authorize_no_request[OF Inl] show ?thesis by auto
next
  case (Inr req)
  show ?thesis
  proof (cases "Do w req")
    case (Inl e)
    from Authorize_transport[OF Inr Inl] show ?thesis by auto
  next
    case c: (Inr resp)
    obtain t2 r where h: "handleResponse w resp = Some (t2, r)"
      and f: "snd r \<noteq> None \<longrightarrow> \<not> fst r"
      using handleResponse_cases[of w resp] by blast
    from Authorize_response[OF Inr c h] f show ?thesis
      by (cases r) auto
  qed
qed

theorem Authorize_error_xor_decision_witness:
  "Authorize (sampleWorld (Inl ''connection refused'')) ()
     \<lparr>AccessToken = ''t'', AppRedirect = ''/''\<rparr>
   = Some ([Log ''Checking Lagoon provider for authorization on /\<newline>''],
           False, Some MissingDestination)"
  using Authorize_error_xor_decision[of "sampleWorld (Inl ''connection refused'')" "()"
      "\<lparr>AccessToken = ''t'', AppRedirect = ''/''\<rparr>"]
  by (simp add: Authorize_def inspectToken_def Split_def prepareRequest_def TrimRight_def Let_def)

text \<open>
  C6. The token inspection is total and only logs: it splits the access token at the
  dots, acts only when there are exactly three segments, decodes the first two segments
  with the unpadded URL-safe base64 decoder and logs the bytes it got, dropping the
  decoder's error; it never panics and returns no error. Whatever the decoder returns,
  the pair (allowed, error) of \<open>Authorize\<close> is the same.
\<close>

theorem inspectToken_never_decides:
  "inspectToken w (AccessToken s) =
     Some (if length (Split (AccessToken s) CHR ''.'') = 3 then
             [Log (''Access Token Header: ''
                   @ fst (DecodeString w (Split (AccessToken s) CHR ''.'' ! 0)) @ ''\<newline>''),
              Log (''Access Token Payload: ''
                   @ fst (DecodeString w (Split (AccessToken s) CHR ''.'' ! 1)) @ ''\<newline>'')]
           else []) \<and>
   (\<exists>tr r. Authorize w ctx s = Some (tr, r) \<and>
      (\<exists>tr'. Authorize (w\<lparr>DecodeString := d\<rparr>) ctx s = Some (tr', r)))"
proof -
  let ?w = "w\<lparr>DecodeString := d\<rparr>"
  have p: "prepareRequest ?w ctx s = prepareRequest w ctx s"
    by (rule prepareRequest_DecodeString)
  have "\<exists>tr r. Authorize w ctx s = Some (tr, r) \<and>
      (\<exists>tr'. Authorize ?w ctx s = Some (tr', r))"
  proof (cases "prepareRequest w ctx s")
    case (Inl e)
    from Inl p have q: "prepareRequest ?w ctx s = Inl e" by simp
    from Authorize_no_request[OF Inl] Authorize_no_request[OF q]
    show ?thesis by blast
  next
    case (Inr req)
    from Inr p have q: "prepareRequest ?w ctx s = Inr req" by simp
    show ?thesis
    proof (cases "Do w req")
      case (Inl e)
      then have "Do ?w req = Inl e" by simp
      from Authorize_transport[OF Inr Inl] Authorize_transport[OF q this]
      show ?thesis by blast
    next
      case c: (Inr resp)
      then have c': "Do ?w req = Inr resp" by simp
      obtain t2 r where h: "handleResponse w resp = Some (t2, r)"
        using handleResponse_cases[of w resp] by blast
      then have h': "handleResponse ?w resp = Some (t2, r)"
        by (simp add: handleResponse_DecodeString)
      from Authorize_response[OF Inr c h] Authorize_response[OF q c' h']
      show ?thesis by blast
    qed
  qed
  then show ?thesis by (simp add: inspectToken_eq)
qed

theorem inspectToken_never_decides_witness:
  \<open>inspectToken (sampleWorld (Inl ''connection refused''))
      (AccessToken \<lparr>AccessToken = ''!!.eyJzdWIiOiIxIn0.c2ln'', AppRedirect = ''/app''\<rparr>) =
     Some [Log ''Access Token Header: \<newline>'',
           Log ''Access Token Payload: {"sub":"1"}\<newline>''] \<and>
   inspectToken (sampleWorld (Inl ''connection refused''))
      (AccessToken \<lparr>AccessToken = ''opaque-token'', AppRedirect = ''/app''\<rparr>) = Some []\<close>
  using inspectToken_never_decides[of "sampleWorld (Inl ''connection refused'')"
      \<open>\<lparr>AccessToken = ''!!.eyJzdWIiOiIxIn0.c2ln'', AppRedirect = ''/app''\<rparr>\<close> "()"  sampleDecodeString]
    inspectToken_never_decides[of "sampleWorld (Inl ''connection refused'')"
      \<open>\<lparr>AccessToken = ''opaque-token'', AppRedirect = ''/app''\<rparr>\<close> "()" sampleDecodeString]
  by (simp add: sampleWorld_def sampleDecodeString_def Split_def)

text \<open>
  C7, as amended. For a session whose normalised \<open>AppRedirect\<close> is not empty, when the
  request map is encoded and the request created without error, \<open>Authorize\<close> issues
  exactly one HTTP request: a POST to the fixed endpoint, with the headers
  \<open>Authorization: Bearer <AccessToken>\<close> and \<open>Content-Type: application/json\<close>, whose body
  is the JSON encoding of the map with \<open>query\<close> Q and \<open>variables\<close> \<open>{route: R}\<close>. R is
  \<open>AppRedirect\<close> without its trailing \<open>/\<close> characters: \<open>AppRedirect\<close> is R followed by
  slashes only, and R does not end with a slash. Q is the query text of the interface
  description with one line feed before it and one line feed after its last brace.

  The claim as written says that Q is that query text byte for byte; the counterexample
  below shows that the query sent differs from it.
\<close>

theorem Authorize_outbound_request:
  assumes "TrimRight (AppRedirect s) ''/'' \<noteq> []"
    and "Marshal w (requestMap (TrimRight (AppRedirect s) ''/'')) = Inr bodyJSON"
    and "requestInvalid w ctx ''POST'' lagoonGraphqlEndpoint = None"
  shows "(\<exists>tr r. Authorize w ctx s = Some (tr, r) \<and>
       filter is_HttpDo tr =
         [HttpDo \<lparr>Ctx = ctx, Method = ''POST'', URL = lagoonGraphqlEndpoint,
                  Header = [''Authorization'' \<mapsto> [''Bearer '' @ AccessToken s],
                            ''Content-Type'' \<mapsto> [''application/json'']],
                  RequestBody = bodyJSON\<rparr>]) \<and>
     requestMap (TrimRight (AppRedirect s) ''/'') =
       [''query'' \<mapsto> GoString (CHR ''\<newline>'' # specQueryText @ ''\<newline>''),
        ''variables'' \<mapsto> GoStringMap [''route'' \<mapsto> TrimRight (AppRedirect s) ''/'']] \<and>
     (\<exists>n. AppRedirect s = TrimRight (AppRedirect s) ''/'' @ replicate n CHR ''/'') \<and>
     last (TrimRight (AppRedirect s) ''/'') \<noteq> CHR ''/''"
proof -
  note p = prepareRequest_ok[OF assms]
  have "requestMap (TrimRight (AppRedirect s) ''/'') =
       [''query'' \<mapsto> GoString (CHR ''\<newline>'' # specQueryText @ ''\<newline>''),
        ''variables'' \<mapsto> GoStringMap [''route'' \<mapsto> TrimRight (AppRedirect s) ''/'']]"
    unfolding requestMap_def queryGetEnvironmentByRoute_spec ..
  with Authorize_requests[OF p] TrimRight_suffix[of "AppRedirect s" "CHR ''/''"]
    TrimRight_last[OF assms(1)]
  show ?thesis by blast
qed

theorem Authorize_outbound_request_witness:
  \<open>Authorize (sampleWorld (Inl ''connection refused'')) () sampleSession =
    Some ([Log ''Checking Lagoon provider for authorization on https://example.com/app///\<newline>'',
           Log ''Access Token Header: {"alg":"none"}\<newline>'',
           Log ''Access Token Payload: {"sub":"1"}\<newline>'',
           HttpDo \<lparr>Ctx = (), Method = ''POST'',
                   URL = ''http://lagoon-api.172.18.0.240.nip.io/graphql'',
                   Header = [''Authorization'' \<mapsto>
                               [''Bearer eyJhbGciOiJub25lIn0.eyJzdWIiOiIxIn0.c2ln''],
                             ''Content-Type'' \<mapsto> [''application/json'']],
                   RequestBody = ''{"query":"''
                     @ jsonQuote (CHR ''\<newline>'' # specQueryText @ ''\<newline>'')
                     @ ''","variables":{"route":"https://example.com/app"}}''\<rparr>],
          False, Some (TransportFailure ''connection refused''))\<close>
proof -
  let ?w = "sampleWorld (Inl ''connection refused'')"
  let ?b = \<open>''{"query":"'' @ jsonQuote (CHR ''\<newline>'' # specQueryText @ ''\<newline>'')
                     @ ''","variables":{"route":"https://example.com/app"}}''\<close>
  have t: "TrimRight (AppRedirect sampleSession) ''/'' = ''https://example.com/app''"
    by (simp add: sampleSession_def TrimRight_def)
  then have a: "TrimRight (AppRedirect sampleSession) ''/'' \<noteq> []" by simp
  have m: "Marshal ?w (requestMap (TrimRight (AppRedirect sampleSession) ''/'')) = Inr ?b"
    unfolding t
    by (simp add: sampleWorld_def sampleMarshal_def requestMap_def
        queryGetEnvironmentByRoute_spec)
  have v: "requestInvalid ?w () ''POST'' lagoonGraphqlEndpoint = None"
    by (simp add: sampleWorld_def)
  have i: \<open>inspectToken ?w (AccessToken sampleSession) =
    Some [Log ''Access Token Header: {"alg":"none"}\<newline>'',
          Log ''Access Token Payload: {"sub":"1"}\<newline>'']\<close>
    by (simp add: inspectToken_def index_def Split_def sampleWorld_def sampleSession_def
        sampleDecodeString_def)
  have p: "prepareRequest ?w () sampleSession =
    Inr \<lparr>Ctx = (), Method = ''POST'', URL = lagoonGraphqlEndpoint,
         Header = [''Authorization'' \<mapsto> [''Bearer '' @ AccessToken sampleSession],
                   ''Content-Type'' \<mapsto> [''application/json'']],
         RequestBody = ?b\<rparr>"
    by (rule prepareRequest_ok[OF a m v])
  have d: "Do ?w q = Inl ''connection refused''" for q
    by (simp add: sampleWorld_def)
  from Authorize_transport[OF p d] i
  have e: \<open>Authorize ?w () sampleSession =
    Some ([Log (''Checking Lagoon provider for authorization on ''
                @ AppRedirect sampleSession @ ''\<newline>''),
           Log ''Access Token Header: {"alg":"none"}\<newline>'',
           Log ''Access Token Payload: {"sub":"1"}\<newline>'',
           HttpDo \<lparr>Ctx = (), Method = ''POST'', URL = lagoonGraphqlEndpoint,
                   Header = [''Authorization'' \<mapsto> [''Bearer '' @ AccessToken sampleSession],
                             ''Content-Type'' \<mapsto> [''application/json'']],
                   RequestBody = ?b\<rparr>],
          False, Some (TransportFailure ''connection refused''))\<close>
    by simp
  from Authorize_outbound_request[OF a m v] e show ?thesis
    by (simp add: sampleSession_def lagoonGraphqlEndpoint_def)
qed

theorem Authorize_query_text_counterexample:
  \<open>requestMap (TrimRight (AppRedirect sampleSession) ''/'') ''query''
     \<noteq> Some (GoString specQueryText) \<and>
   map_sum id RequestBody
     (prepareRequest (sampleWorld (Inl ''connection refused'')) () sampleSession)
     \<noteq> Inr (''{"query":"'' @ jsonQuote specQueryText
              @ ''","variables":{"route":"https://example.com/app"}}'')\<close>
  by (simp add: requestMap_def queryGetEnvironmentByRoute_def specQueryText_def
      prepareRequest_def sampleWorld_def sampleSession_def TrimRight_def sampleMarshal_def
      NewRequestWithContext_def HeaderSet_def Let_def)

text \<open>
  C8. For an HTTP 200 response, \<open>Authorize\<close> returns (false, ResponseDecodeFailed) with
  the cause exactly when \<open>json.Unmarshal\<close> of the body into the response struct fails with
  that cause; when it succeeds, the result is the one of the errors and name checks.
\<close>

theorem Authorize_decode_failure:
  assumes "prepareRequest w ctx s = Inr req"
    and "Do w req = Inr resp"
    and "StatusCode resp = 200"
  shows "((\<exists>tr. Authorize w ctx s = Some (tr, False, Some (ResponseDecodeFailed c)))
            \<longleftrightarrow> Unmarshal w (fst (ReadAll (Body resp))) = Inl c) \<and>
     (\<forall>g. Unmarshal w (fst (ReadAll (Body resp))) = Inr g \<longrightarrow>
        (\<exists>tr. Authorize w ctx s =
           Some (tr, case Errors g of
                       [] \<Rightarrow> (Name (EnvironmentByRoute (Data g)) \<noteq> [], None)
                     | e # es \<Rightarrow> (False, Some (RemoteGraphQLError (Message e))))))"
proof -
  from Authorize_200[OF assms] obtain tr where a: "Authorize w ctx s =
     Some (tr @ [BodyClose],
           case Unmarshal w (bytesRead (Body resp)) of
             Inl c \<Rightarrow> (False, Some (ResponseDecodeFailed c))
           | Inr g \<Rightarrow>
               (case Errors g of
                  [] \<Rightarrow> (Name (EnvironmentByRoute (Data g)) \<noteq> [], None)
                | e # es \<Rightarrow> (False, Some (RemoteGraphQLError (Message e)))))" ..
  show ?thesis
  proof (cases "Unmarshal w (bytesRead (Body resp))")
    case (Inl c')
    with a show ?thesis by (auto simp add: ReadAll_def)
  next
    case (Inr g)
    with a show ?thesis by (auto simp add: ReadAll_def split: list.splits)
  qed
qed

theorem Authorize_decode_failure_witness:
  \<open>(\<exists>tr. Authorize
      (sampleWorld (Inr \<lparr>StatusCode = 200, Body = sampleBody ''<html>Bad Gateway</html>''\<rparr>))
      () sampleSession
      = Some (tr, False, Some (ResponseDecodeFailed ''unexpected end of JSON input''))) \<and>
   (\<exists>tr. Authorize
      (sampleWorld (Inr \<lparr>StatusCode = 200,
         Body = sampleBody ''{"data":{"environmentByRoute":{"id":7,"name":"prod"}}}''\<rparr>))
      () sampleSession = Some (tr, True, None))\<close>
proof -
  let ?r1 = "\<lparr>StatusCode = 200, Body = sampleBody ''<html>Bad Gateway</html>''\<rparr>"
  let ?r2 = \<open>\<lparr>StatusCode = 200,
         Body = sampleBody ''{"data":{"environmentByRoute":{"id":7,"name":"prod"}}}''\<rparr>\<close>
  let ?g = "\<lparr>Data = \<lparr>EnvironmentByRoute = \<lparr>ID = 7, Name = ''prod''\<rparr>\<rparr>, Errors = []\<rparr>"
  obtain q1 where p1: "prepareRequest (sampleWorld (Inr ?r1)) () sampleSession = Inr q1"
    using sample_prepareRequest by blast
  obtain q2 where p2: "prepareRequest (sampleWorld (Inr ?r2)) () sampleSession = Inr q2"
    using sample_prepareRequest by blast
  have d1: "Do (sampleWorld (Inr ?r1)) q1 = Inr ?r1" by (simp add: sampleWorld_def)
  have d2: "Do (sampleWorld (Inr ?r2)) q2 = Inr ?r2" by (simp add: sampleWorld_def)
  have s1: "StatusCode ?r1 = 200" by simp
  have s2: "StatusCode ?r2 = 200" by simp
  have u1: "Unmarshal (sampleWorld (Inr ?r1)) (fst (ReadAll (Body ?r1)))
      = Inl ''unexpected end of JSON input''"
    by (simp add: sampleWorld_def sampleUnmarshal_def sampleBody_def ReadAll_def)
  have u2: "Unmarshal (sampleWorld (Inr ?r2)) (fst (ReadAll (Body ?r2))) = Inr ?g"
    by (simp add: sampleWorld_def sampleUnmarshal_def sampleBody_def ReadAll_def)
  from Authorize_decode_failure[OF p1 d1 s1, of "''unexpected end of JSON input''"] u1
  have "\<exists>tr. Authorize (sampleWorld (Inr ?r1)) () sampleSession
      = Some (tr, False, Some (ResponseDecodeFailed ''unexpected end of JSON input''))"
    by blast
  moreover
  from Authorize_decode_failure[OF p2 d2 s2, of "[]"] u2
  have "\<exists>tr. Authorize (sampleWorld (Inr ?r2)) () sampleSession = Some (tr, True, None)"
    by auto
  ultimately show ?thesis by blast
qed

text \<open>
  C9. The claim asks that the response body be closed on every path that obtained a
  response, the path of a status other than 200 included. The code closes it on the 200
  paths (\<open>Authorize_200\<close>) and not on the other (\<open>Authorize_not_200_leaves_body_open\<close>):
  line 100 returns before the deferred close of line 103 is registered. Here is the call
  answered by an HTTP 500: it returns (false, UnexpectedStatus 500) and its trace holds no
  close of the body.
\<close>

theorem Authorize_status_500_body_not_closed:
  "map_option (\<lambda>(tr, r). (BodyClose \<in> set tr, r))
     (Authorize
        (sampleWorld (Inr \<lparr>StatusCode = 500, Body = sampleBody ''Internal Server Error''\<rparr>))
        () sampleSession)
   = Some (False, False, Some (UnexpectedStatus 500))"
proof -
  let ?r = "\<lparr>StatusCode = 500, Body = sampleBody ''Internal Server Error''\<rparr>"
  obtain q where p: "prepareRequest (sampleWorld (Inr ?r)) () sampleSession = Inr q"
    using sample_prepareRequest by blast
  have d: "Do (sampleWorld (Inr ?r)) q = Inr ?r" by (simp add: sampleWorld_def)
  have s: "StatusCode ?r \<noteq> 200" by simp
  from Authorize_response[OF p d handleResponse_not_200[OF s]]
  obtain t1 where i: "inspectToken (sampleWorld (Inr ?r)) (AccessToken sampleSession) = Some t1"
    and a: "Authorize (sampleWorld (Inr ?r)) () sampleSession =
     Some (Log (''Checking Lagoon provider for authorization on '' @ AppRedirect sampleSession
                 @ ''\<newline>'') # t1 @ [HttpDo q],
           False, Some (UnexpectedStatus (StatusCode ?r)))"
    by auto
  from inspectToken_logs[OF i] have "BodyClose \<notin> set t1"
    by (auto simp add: list_all_iff)
  with a show ?thesis by simp
qed

text \<open>
  C10. The error of reading the body of a 200 response is dropped: the result of
  \<open>Authorize\<close> is determined by the bytes read alone, whatever the read error is. A
  failed or partial read gives ResponseDecodeFailed when the bytes do not decode, the
  usual decision when they do, and never a TransportFailure.
\<close>

theorem Authorize_read_error_discarded:
  assumes "prepareRequest w ctx s = Inr req"
    and "Do w req = Inr resp"
    and "StatusCode resp = 200"
  shows "(\<exists>tr allowed err. Authorize w ctx s = Some (tr, allowed, err) \<and>
       (allowed, err) =
         (case Unmarshal w (bytesRead (Body resp)) of
            Inl c \<Rightarrow> (False, Some (ResponseDecodeFailed c))
          | Inr g \<Rightarrow>
              (case Errors g of
                 [] \<Rightarrow> (Name (EnvironmentByRoute (Data g)) \<noteq> [], None)
               | e # es \<Rightarrow> (False, Some (RemoteGraphQLError (Message e))))) \<and>
       (\<forall>c. err \<noteq> Some (TransportFailure c))) \<and>
     (\<forall>x. handleResponse w (resp\<lparr>Body := (Body resp)\<lparr>readError := x\<rparr>\<rparr>)
            = handleResponse w resp)"
proof -
  from Authorize_200[OF assms] obtain tr where a: "Authorize w ctx s =
     Some (tr @ [BodyClose],
           case Unmarshal w (bytesRead (Body resp)) of
             Inl c \<Rightarrow> (False, Some (ResponseDecodeFailed c))
           | Inr g \<Rightarrow>
               (case Errors g of
                  [] \<Rightarrow> (Name (EnvironmentByRoute (Data g)) \<noteq> [], None)
                | e # es \<Rightarrow> (False, Some (RemoteGraphQLError (Message e)))))" ..
  have "\<forall>x. handleResponse w (resp\<lparr>Body := (Body resp)\<lparr>readError := x\<rparr>\<rparr>)
            = handleResponse w resp"
    by (simp add: handleResponse_def ReadAll_def)
  moreover have "\<exists>tr allowed err. Authorize w ctx s = Some (tr, allowed, err) \<and>
       (allowed, err) =
         (case Unmarshal w (bytesRead (Body resp)) of
            Inl c \<Rightarrow> (False, Some (ResponseDecodeFailed c))
          | Inr g \<Rightarrow>
              (case Errors g of
                 [] \<Rightarrow> (Name (EnvironmentByRoute (Data g)) \<noteq> [], None)
               | e # es \<Rightarrow> (False, Some (RemoteGraphQLError (Message e))))) \<and>
       (\<forall>c. err \<noteq> Some (TransportFailure c))"
    using a by (auto split: sum.splits list.splits)
  ultimately show ?thesis by blast
qed

theorem Authorize_read_error_discarded_witness:
  \<open>(\<exists>tr. Authorize
      (sampleWorld (Inr \<lparr>StatusCode = 200,
         Body = \<lparr>bytesRead = ''{"data":{"environmentByRoute":{"id":7,"na'',
                 readError = Some ''unexpected EOF''\<rparr>\<rparr>))
      () sampleSession
      = Some (tr, False, Some (ResponseDecodeFailed ''unexpected end of JSON input''))) \<and>
   (\<exists>tr. Authorize
      (sampleWorld (Inr \<lparr>StatusCode = 200,
         Body = \<lparr>bytesRead = ''{"data":{"environmentByRoute":{"id":7,"name":"prod"}}}'',
                 readError = Some ''read: connection reset by peer''\<rparr>\<rparr>))
      () sampleSession = Some (tr, True, None))\<close>
proof -
  let ?r1 = \<open>\<lparr>StatusCode = 200,
         Body = \<lparr>bytesRead = ''{"data":{"environmentByRoute":{"id":7,"na'',
                 readError = Some ''unexpected EOF''\<rparr>\<rparr>\<close>
  let ?r2 = \<open>\<lparr>StatusCode = 200,
         Body = \<lparr>bytesRead = ''{"data":{"environmentByRoute":{"id":7,"name":"prod"}}}'',
                 readError = Some ''read: connection reset by peer''\<rparr>\<rparr>\<close>
  obtain q1 where p1: "prepareRequest (sampleWorld (Inr ?r1)) () sampleSession = Inr q1"
    using sample_prepareRequest by blast
  obtain q2 where p2: "prepareRequest (sampleWorld (Inr ?r2)) () sampleSession = Inr q2"
    using sample_prepareRequest by blast
  have d1: "Do (sampleWorld (Inr ?r1)) q1 = Inr ?r1" by (simp add: sampleWorld_def)
  have d2: "Do (sampleWorld (Inr ?r2)) q2 = Inr ?r2" by (simp add: sampleWorld_def)
  have s1: "StatusCode ?r1 = 200" by simp
  have s2: "StatusCode ?r2 = 200" by simp
  have u1: "Unmarshal (sampleWorld (Inr ?r1)) (bytesRead (Body ?r1))
      = Inl ''unexpected end of JSON input''"
    by (simp add: sampleWorld_def sampleUnmarshal_def)
  have u2: "Unmarshal (sampleWorld (Inr ?r2)) (bytesRead (Body ?r2))
      = Inr \<lparr>Data = \<lparr>EnvironmentByRoute = \<lparr>ID = 7, Name = ''prod''\<rparr>\<rparr>, Errors = []\<rparr>"
    by (simp add: sampleWorld_def sampleUnmarshal_def)
  from Authorize_read_error_discarded[OF p1 d1 s1]
  have "\<exists>tr. Authorize (sampleWorld (Inr ?r1)) () sampleSession
      = Some (tr, False, Some (ResponseDecodeFailed ''unexpected end of JSON input''))"
    unfolding u1 by auto
  moreover
  from Authorize_read_error_discarded[OF p2 d2 s2]
  have "\<exists>tr. Authorize (sampleWorld (Inr ?r2)) () sampleSession = Some (tr, True, None)"
    unfolding u2 by auto
  ultimately show ?thesis by blast
qed

end
